theory Spec2Isabelle
  imports Complex_Main "HOL-Library.AList"
begin

section \<open>Python values used by the validators\<close>

text \<open>
  The repository is Python over \<open>numpy\<close>, \<open>lasio\<close> and \<open>segyio\<close>. This section
  fixes how the values of those libraries are read in HOL.

  \<^item> A Python \<open>int\<close> is an \<open>int\<close> (unbounded).
  \<^item> A Python \<open>str\<close> is a \<open>string\<close>; \<open>upper\<close> and \<open>lower\<close> convert the ASCII
    letters, which is what \<open>str.upper\<close> and \<open>str.lower\<close> do on ASCII file names and
    curve mnemonics.
  \<^item> A numpy float is an \<open>npfloat\<close>: a finite value, an infinity or NaN. A finite
    float is read as the real number it denotes and arithmetic on finite values is
    exact: the rounding of IEEE doubles is not part of the model. The concrete inputs
    evaluated below keep every intermediate value away from a rounding boundary.
  \<^item> A raised exception is a value \<open>PyErr msg\<close> on the left of a sum; \<open>str(e)\<close> is
    \<open>msg\<close>.
\<close>

datatype pyerr = PyErr string

fun err_str :: "pyerr \<Rightarrow> string" where
  "err_str (PyErr m) = m"

subsection \<open>Strings\<close>

definition upper_char :: "char \<Rightarrow> char" where
  "upper_char c =
     (let n = (of_char c :: nat) in if 97 \<le> n \<and> n \<le> 122 then char_of (n - 32) else c)"

definition lower_char :: "char \<Rightarrow> char" where
  "lower_char c =
     (let n = (of_char c :: nat) in if 65 \<le> n \<and> n \<le> 90 then char_of (n + 32) else c)"

definition upper :: "string \<Rightarrow> string" where
  "upper s = map upper_char s"

definition lower :: "string \<Rightarrow> string" where
  "lower s = map lower_char s"

text \<open>\<open>s.endswith(suf)\<close>.\<close>

definition endswith :: "string \<Rightarrow> string \<Rightarrow> bool" where
  "endswith s suf = (length suf \<le> length s \<and> drop (length s - length suf) s = suf)"

text \<open>\<open>pat in s\<close> on strings: \<open>pat\<close> occurs in \<open>s\<close> as a contiguous run.\<close>

fun str_contains :: "string \<Rightarrow> string \<Rightarrow> bool" where
  "str_contains [] pat = (pat = [])"
| "str_contains (c # cs) pat = (take (length pat) (c # cs) = pat \<or> str_contains cs pat)"

text \<open>\<open>str(n)\<close> of a Python int.\<close>

definition digit_char :: "nat \<Rightarrow> char" where
  "digit_char d = ''0123456789'' ! d"

fun str_nat :: "nat \<Rightarrow> string" where
  "str_nat n = (if n < 10 then [digit_char n] else str_nat (n div 10) @ [digit_char (n mod 10)])"

declare str_nat.simps [simp del]

definition str_int :: "int \<Rightarrow> string" where
  "str_int i = (if i < 0 then CHR ''-'' # str_nat (nat (- i)) else str_nat (nat i))"

subsection \<open>Floats\<close>

datatype npfloat = Fin real | PInf | NInf | NaN

text \<open>\<open>np.isnan\<close>, and the comparisons of IEEE floats: every comparison with NaN is
  false except \<open>!=\<close>, which is true.\<close>

fun isnan :: "npfloat \<Rightarrow> bool" where
  "isnan NaN = True"
| "isnan _ = False"

fun np_eq :: "npfloat \<Rightarrow> npfloat \<Rightarrow> bool" where
  "np_eq (Fin a) (Fin b) = (a = b)"
| "np_eq PInf PInf = True"
| "np_eq NInf NInf = True"
| "np_eq _ _ = False"

definition np_ne :: "npfloat \<Rightarrow> npfloat \<Rightarrow> bool" where
  "np_ne a b = (\<not> np_eq a b)"

fun np_lt :: "npfloat \<Rightarrow> npfloat \<Rightarrow> bool" where
  "np_lt NaN _ = False"
| "np_lt _ NaN = False"
| "np_lt (Fin a) (Fin b) = (a < b)"
| "np_lt NInf NInf = False"
| "np_lt NInf _ = True"
| "np_lt _ NInf = False"
| "np_lt PInf _ = False"
| "np_lt (Fin a) PInf = True"

text \<open>
  \<open>'%.<d>f' % x\<close>, the fixed-point format of an f-string. Python prints the decimal
  expansion of the exact value of the float, rounded to \<open>d\<close> places, a tie going to the
  even digit; a negative value keeps its sign when it rounds to zero. The float
  \<open>-0.0\<close> has no counterpart among the finite values of the model.
\<close>

definition round_half_even :: "real \<Rightarrow> int" where
  "round_half_even y =
     (let f = \<lfloor>y\<rfloor>; r = y - of_int f
      in if r < 1 / 2 then f else if 1 / 2 < r then f + 1 else if even f then f else f + 1)"

definition zfill :: "nat \<Rightarrow> string \<Rightarrow> string" where
  "zfill d s = replicate (d - length s) CHR ''0'' @ s"

definition format_fixed :: "nat \<Rightarrow> real \<Rightarrow> string" where
  "format_fixed d x =
     (let m = nat (round_half_even (\<bar>x\<bar> * 10 ^ d));
          body = str_nat (m div 10 ^ d) @
                 (if d = 0 then [] else CHR ''.'' # zfill d (str_nat (m mod 10 ^ d)))
      in if x < 0 then CHR ''-'' # body else body)"

fun format_float :: "nat \<Rightarrow> npfloat \<Rightarrow> string" where
  "format_float d (Fin x) = format_fixed d x"
| "format_float d PInf = ''inf''"
| "format_float d NInf = ''-inf''"
| "format_float d NaN = ''nan''"

text \<open>\<open>np.nanmin\<close> and \<open>np.nanmax\<close> of a non-empty array: the NaNs are ignored; an
  array of NaNs alone gives NaN (with a warning, not an exception).\<close>

fun np_min2 :: "npfloat \<Rightarrow> npfloat \<Rightarrow> npfloat" where
  "np_min2 a b = (if np_lt b a then b else a)"

fun np_max2 :: "npfloat \<Rightarrow> npfloat \<Rightarrow> npfloat" where
  "np_max2 a b = (if np_lt a b then b else a)"

definition nanmin :: "npfloat list \<Rightarrow> npfloat" where
  "nanmin xs = (case filter (\<lambda>x. \<not> isnan x) xs of [] \<Rightarrow> NaN | y # ys \<Rightarrow> fold np_min2 ys y)"

definition nanmax :: "npfloat list \<Rightarrow> npfloat" where
  "nanmax xs = (case filter (\<lambda>x. \<not> isnan x) xs of [] \<Rightarrow> NaN | y # ys \<Rightarrow> fold np_max2 ys y)"

subsection \<open>Dictionaries\<close>

text \<open>A \<open>dict\<close> is an association list in insertion order; \<open>d[k] = v\<close> is
  \<open>AList.update k v d\<close>, which replaces the value of a key already there and appends a
  new key; \<open>k in d\<close> and \<open>d[k]\<close> read \<open>map_of d k\<close>.\<close>

type_synonym ('k, 'v) dict = "('k \<times> 'v) list"

definition dict_has :: "('k, 'v) dict \<Rightarrow> 'k \<Rightarrow> bool" where
  "dict_has d k = (map_of d k \<noteq> None)"

section \<open>File discovery: \<open>modules/file_scanner.py\<close>\<close>

text \<open>
  The scanner reads the file system through \<open>os.path.isdir\<close> and \<open>os.walk\<close>; both are
  the environment of the model. \<open>os.walk(root)\<close> is the list of its triples
  \<open>(dirpath, dirnames, filenames)\<close>, in the order the walk yields them.
\<close>

record os_env =
  os_isdir :: "string \<Rightarrow> bool"
  os_walk :: "string \<Rightarrow> (string \<times> string list \<times> string list) list"

text \<open>\<open>os.path.join\<close> of two components (POSIX).\<close>

definition os_path_join :: "string \<Rightarrow> string \<Rightarrow> string" where
  "os_path_join a b =
     (if b \<noteq> [] \<and> hd b = CHR ''/'' then b
      else if a = [] \<or> last a = CHR ''/'' then a @ b
      else a @ ''/'' @ b)"

record scanner =
  root_folder :: string
  filter_text :: string
  filter_enabled :: bool
  found_files :: "string list"

text \<open>\<open>__init__(self, root_folder, filter_text="", filter_enabled=False)\<close>.\<close>

definition new_scanner :: "string \<Rightarrow> string \<Rightarrow> bool \<Rightarrow> scanner" where
  "new_scanner folder text enabled =
     \<lparr>root_folder = folder, filter_text = text, filter_enabled = enabled, found_files = []\<rparr>"

text \<open>The inner loop \<open>for filename in filenames\<close>; \<open>exts\<close> are the extensions the
  scanner accepts. The accumulator is \<open>self.las_files\<close> (\<open>self.segy_files\<close>).\<close>

fun scan_filenames ::
  "string list \<Rightarrow> scanner \<Rightarrow> string \<Rightarrow> string list \<Rightarrow> string list \<Rightarrow> string list" where
  "scan_filenames exts sc dirpath [] acc = acc"
| "scan_filenames exts sc dirpath (filename # rest) acc =
     (if list_ex (endswith (lower filename)) exts then
        (if filter_enabled sc \<and> filter_text sc \<noteq> [] then
           (if \<not> str_contains (upper filename) (upper (filter_text sc))
            then scan_filenames exts sc dirpath rest acc
            else scan_filenames exts sc dirpath rest (acc @ [os_path_join dirpath filename]))
         else scan_filenames exts sc dirpath rest (acc @ [os_path_join dirpath filename]))
      else scan_filenames exts sc dirpath rest acc)"

text \<open>The outer loop \<open>for dirpath, dirnames, filenames in os.walk(...)\<close>.\<close>

fun scan_walk ::
  "string list \<Rightarrow> scanner \<Rightarrow> (string \<times> string list \<times> string list) list \<Rightarrow> string list
     \<Rightarrow> string list" where
  "scan_walk exts sc [] acc = acc"
| "scan_walk exts sc ((dirpath, dirnames, filenames) # rest) acc =
     scan_walk exts sc rest (scan_filenames exts sc dirpath filenames acc)"

text \<open>The method returns its list and leaves it in the scanner.\<close>

definition find_all_files :: "string list \<Rightarrow> os_env \<Rightarrow> scanner \<Rightarrow> string list \<times> scanner" where
  "find_all_files exts env sc =
     (let sc0 = sc\<lparr>found_files := []\<rparr>
      in if \<not> os_isdir env (root_folder sc) then ([], sc0)
         else (let fs = scan_walk exts sc0 (os_walk env (root_folder sc)) []
               in (fs, sc0\<lparr>found_files := fs\<rparr>)))"

definition find_all_las_files :: "os_env \<Rightarrow> scanner \<Rightarrow> string list \<times> scanner" where
  "find_all_las_files = find_all_files [''.las'']"

definition find_all_segy_files :: "os_env \<Rightarrow> scanner \<Rightarrow> string list \<times> scanner" where
  "find_all_segy_files = find_all_files [''.sgy'', ''.segy'']"

text \<open>The files of a walk that carry one of the extensions, in walk order.\<close>

definition has_ext :: "string list \<Rightarrow> string \<Rightarrow> bool" where
  "has_ext exts filename = list_ex (endswith (lower filename)) exts"

definition files_with_ext ::
  "string list \<Rightarrow> (string \<times> string list \<times> string list) list \<Rightarrow> string list" where
  "files_with_ext exts w =
     concat (map (\<lambda>(dirpath, dirnames, filenames).
                    map (os_path_join dirpath) (filter (has_ext exts) filenames)) w)"

lemma scan_filenames_filter_off:
  "\<not> (filter_enabled sc \<and> filter_text sc \<noteq> []) \<Longrightarrow>
   scan_filenames exts sc d fs acc = acc @ map (os_path_join d) (filter (has_ext exts) fs)"
  by (induction fs arbitrary: acc) (auto simp: has_ext_def)

lemma scan_walk_filter_off:
  "\<not> (filter_enabled sc \<and> filter_text sc \<noteq> []) \<Longrightarrow>
   scan_walk exts sc w acc = acc @ files_with_ext exts w"
  by (induction w arbitrary: acc) (auto simp: files_with_ext_def scan_filenames_filter_off)

text \<open>
  The guard of both scanners is \<open>if self.filter_enabled and self.filter_text\<close>: an
  empty text is falsy, so the filter is skipped whenever it is disabled \<^emph>\<open>or\<close> its text
  is empty, and the scanner then returns every file with a matching extension.
\<close>

lemma find_all_files_filter_off:
  assumes "\<not> (filter_enabled sc \<and> filter_text sc \<noteq> [])"
  shows "fst (find_all_files exts env sc) =
           (if os_isdir env (root_folder sc)
            then files_with_ext exts (os_walk env (root_folder sc)) else [])"
  using assms by (simp add: find_all_files_def Let_def scan_walk_filter_off)

lemma find_all_files_filter_disabled:
  "fst (find_all_las_files env (new_scanner folder text False)) =
     (if os_isdir env folder then files_with_ext [''.las''] (os_walk env folder) else []) \<and>
   fst (find_all_segy_files env (new_scanner folder text False)) =
     (if os_isdir env folder then files_with_ext [''.sgy'', ''.segy''] (os_walk env folder)
      else [])"
  by (simp add: find_all_las_files_def find_all_segy_files_def find_all_files_filter_off
      new_scanner_def)

lemma find_all_files_empty_text_as_disabled:
  "fst (find_all_files exts env (new_scanner folder [] True)) =
   fst (find_all_files exts env (new_scanner folder text False))"
  by (simp add: find_all_files_filter_off new_scanner_def)

text \<open>A folder \<open>data\<close> with a log and a text file, and a subfolder with a log and a
  seismic line.\<close>

definition example_env :: os_env where
  "example_env =
     \<lparr>os_isdir = (\<lambda>p. p = ''data''),
      os_walk = (\<lambda>p. if p = ''data''
                      then [(''data'', [''sub''], [''a.las'', ''note.txt'']),
                            (''data/sub'', [], [''B.LAS'', ''line.sgy''])]
                      else [])\<rparr>"

text \<open>
  Claim C1. With \<open>filter_enabled=True\<close> and \<open>filter_text=""\<close> the scanners are claimed to
  discover no file at all, whatever the directory holds. On the folder above, both
  scanners built that way return the files with a matching extension: the two logs, and
  the seismic line.
\<close>

theorem find_all_files_empty_filter_text_eval:
  "fst (find_all_las_files example_env (new_scanner ''data'' '''' True)) =
     [''data/a.las'', ''data/sub/B.LAS''] \<and>
   fst (find_all_segy_files example_env (new_scanner ''data'' '''' True)) =
     [''data/sub/line.sgy'']"
  by code_simp

section \<open>Well-log curves: \<open>modules/curve_validator.py\<close>\<close>

subsection \<open>Configuration, handle and results\<close>

text \<open>An entry of the curve configuration: \<open>{"aliases": [...], "description": ...}\<close>.\<close>

record curve_info =
  aliases :: "string list"
  description :: string

type_synonym curve_config = "(string, curve_info) dict"

text \<open>
  The LAS handle is \<open>lasio\<close>'s object, seen through the three accesses the validator
  makes. Each may raise:
  \<^item> \<open>curves\<close>: iterating \<open>las.curves\<close> and reading each \<open>c.mnemonic\<close>;
  \<^item> \<open>las_getitem name\<close>: \<open>np.array(las[name], dtype=float)\<close>, the samples of a curve;
  \<^item> \<open>curves_getitem name\<close>: \<open>las.curves[name]\<close>, the curve object.
  A curve object has a mnemonic and may have a \<open>unit\<close> attribute.
\<close>

record las_curve =
  mnemonic :: string
  unit :: "string option"

record las_file =
  curves :: "pyerr + las_curve list"
  las_getitem :: "string \<Rightarrow> pyerr + npfloat list"
  curves_getitem :: "string \<Rightarrow> pyerr + las_curve"

text \<open>The null sentinel of log curves, the default of \<open>null_value\<close>.\<close>

definition default_null :: real where
  "default_null = - 999.25"

record curve_validator =
  curve_config :: curve_config
  null_value :: npfloat

text \<open>\<open>__init__(self, curve_config, null_value=-999.25)\<close>.\<close>

definition new_curve_validator :: "curve_config \<Rightarrow> curve_validator" where
  "new_curve_validator cfg = \<lparr>curve_config = cfg, null_value = Fin default_null\<rparr>"

definition update_config :: "curve_validator \<Rightarrow> curve_config \<Rightarrow> curve_validator" where
  "update_config v new_config = v\<lparr>curve_config := new_config\<rparr>"

text \<open>An entry of the result of \<open>validate_las_file\<close>, and one of
  \<open>get_detailed_curve_info\<close>.\<close>

record curve_result =
  status :: string
  reason :: string

record curve_detail =
  info_found :: bool
  info_mnemonic :: string
  info_min :: string
  info_max :: string
  info_percent_filled :: string
  info_unit :: string
  info_description :: string

subsection \<open>Alias resolution and data validation\<close>

text \<open>\<open>{c.mnemonic.upper(): c for c in las.curves}\<close>.\<close>

definition available_curves :: "las_curve list \<Rightarrow> (string, las_curve) dict" where
  "available_curves cs = fold (\<lambda>c d. AList.update (upper (mnemonic c)) c d) cs []"

text \<open>\<open>_find_curve_alias\<close>: the loop over the aliases returns at the first hit.\<close>

fun find_curve_alias :: "string list \<Rightarrow> (string, las_curve) dict \<Rightarrow> string option" where
  "find_curve_alias [] available = None"
| "find_curve_alias (alias # rest) available =
     (if dict_has available (upper alias) then Some (upper alias)
      else find_curve_alias rest available)"

text \<open>\<open>data[data != self.null_value]\<close>.\<close>

definition valid_samples :: "npfloat \<Rightarrow> npfloat list \<Rightarrow> npfloat list" where
  "valid_samples null data = filter (\<lambda>x. np_ne x null) data"

text \<open>\<open>_validate_curve_data\<close>: the \<open>try\<close> covers the whole body, and the only
  statement that can raise is the read of the samples.\<close>

definition validate_curve_data ::
  "curve_validator \<Rightarrow> las_file \<Rightarrow> string \<Rightarrow> curve_info \<Rightarrow> bool \<times> string" where
  "validate_curve_data v las curve_name info =
     (case las_getitem las curve_name of
        Inl e \<Rightarrow> (False, ''Error: '' @ err_str e)
      | Inr data \<Rightarrow>
          (let valid_data = valid_samples (null_value v) data
           in if valid_data = [] then (False, ''No valid data'')
              else (let min_val = nanmin valid_data; max_val = nanmax valid_data
                    in (True, ''Valid ('' @ format_float 2 min_val @ ''-'' @
                              format_float 2 max_val @ '')''))))"

text \<open>\<open>not found_alias\<close> holds for \<open>None\<close> and for the empty string.\<close>

fun not_found :: "string option \<Rightarrow> bool" where
  "not_found None = True"
| "not_found (Some a) = (a = [])"

text \<open>The body of the loop of \<open>validate_las_file\<close> for one item of the configuration.\<close>

definition validate_entry ::
  "curve_validator \<Rightarrow> las_file \<Rightarrow> (string, las_curve) dict \<Rightarrow> curve_info \<Rightarrow> curve_result" where
  "validate_entry v las available info =
     (let found_alias = find_curve_alias (aliases info) available
      in if not_found found_alias then \<lparr>status = ''N'', reason = ''Not found''\<rparr>
         else (let (is_valid, why) = validate_curve_data v las (the found_alias) info
               in \<lparr>status = (if is_valid then ''Y'' else ''N''), reason = why\<rparr>))"

fun validate_loop ::
  "curve_validator \<Rightarrow> las_file \<Rightarrow> (string, las_curve) dict \<Rightarrow> (string \<times> curve_info) list
     \<Rightarrow> (string, curve_result) dict \<Rightarrow> (string, curve_result) dict" where
  "validate_loop v las available [] results = results"
| "validate_loop v las available ((key, info) # rest) results =
     validate_loop v las available rest
       (AList.update key (validate_entry v las available info) results)"

text \<open>\<open>validate_las_file\<close>: building \<open>available_curves\<close> is outside every \<open>try\<close>, so an
  exception of \<open>las.curves\<close> leaves the method.\<close>

definition validate_las_file ::
  "curve_validator \<Rightarrow> las_file \<Rightarrow> pyerr + (string, curve_result) dict" where
  "validate_las_file v las =
     (case curves las of
        Inl e \<Rightarrow> Inl e
      | Inr cs \<Rightarrow> Inr (validate_loop v las (available_curves cs) (curve_config v) []))"

subsection \<open>Detailed curve information\<close>

text \<open>\<open>(valid_points / total_points * 100) if total_points > 0 else 0\<close>.\<close>

definition percent_filled :: "npfloat \<Rightarrow> npfloat list \<Rightarrow> real" where
  "percent_filled null data =
     (let total_points = length data; valid_points = length (valid_samples null data)
      in if total_points > 0 then real valid_points / real total_points * 100 else 0)"

text \<open>\<open>curve_obj.unit if hasattr(curve_obj, 'unit') and curve_obj.unit else "N/A"\<close>.\<close>

definition unit_of :: "las_curve \<Rightarrow> string" where
  "unit_of c = (case unit c of None \<Rightarrow> ''N/A'' | Some u \<Rightarrow> if u \<noteq> [] then u else ''N/A'')"

definition detail_error :: "string \<Rightarrow> curve_info \<Rightarrow> curve_detail" where
  "detail_error found_alias info =
     \<lparr>info_found = True, info_mnemonic = found_alias, info_min = ''Error'',
      info_max = ''Error'', info_percent_filled = ''Error'', info_unit = ''N/A'',
      info_description = description info\<rparr>"

text \<open>The body of the loop of \<open>get_detailed_curve_info\<close> for one item. Inside the
  \<open>try\<close>, the read of the samples and the read of the curve object can raise.\<close>

definition detail_entry ::
  "curve_validator \<Rightarrow> las_file \<Rightarrow> (string, las_curve) dict \<Rightarrow> curve_info \<Rightarrow> curve_detail" where
  "detail_entry v las available info =
     (let found_alias = find_curve_alias (aliases info) available
      in if not_found found_alias then
           \<lparr>info_found = False, info_mnemonic = ''N/A'', info_min = ''N/A'',
            info_max = ''N/A'', info_percent_filled = ''N/A'', info_unit = ''N/A'',
            info_description = description info\<rparr>
         else
           (case las_getitem las (the found_alias) of
              Inl e \<Rightarrow> detail_error (the found_alias) info
            | Inr data \<Rightarrow>
                (let valid_data = valid_samples (null_value v) data
                 in case curves_getitem las (the found_alias) of
                      Inl e \<Rightarrow> detail_error (the found_alias) info
                    | Inr curve_obj \<Rightarrow>
                        \<lparr>info_found = True, info_mnemonic = the found_alias,
                         info_min = (if valid_data \<noteq> []
                                     then format_float 4 (nanmin valid_data) else ''N/A''),
                         info_max = (if valid_data \<noteq> []
                                     then format_float 4 (nanmax valid_data) else ''N/A''),
                         info_percent_filled =
                           format_fixed 2 (percent_filled (null_value v) data),
                         info_unit = unit_of curve_obj,
                         info_description = description info\<rparr>)))"

fun detail_loop ::
  "curve_validator \<Rightarrow> las_file \<Rightarrow> (string, las_curve) dict \<Rightarrow> (string \<times> curve_info) list
     \<Rightarrow> (string, curve_detail) dict \<Rightarrow> (string, curve_detail) dict" where
  "detail_loop v las available [] detailed_info = detailed_info"
| "detail_loop v las available ((key, info) # rest) detailed_info =
     detail_loop v las available rest
       (AList.update key (detail_entry v las available info) detailed_info)"

definition get_detailed_curve_info ::
  "curve_validator \<Rightarrow> las_file \<Rightarrow> pyerr + (string, curve_detail) dict" where
  "get_detailed_curve_info v las =
     (case curves las of
        Inl e \<Rightarrow> Inl e
      | Inr cs \<Rightarrow> Inr (detail_loop v las (available_curves cs) (curve_config v) []))"

subsection \<open>Evaluating the formats\<close>

lemma str_nat_0: "str_nat 0 = ''0''"
  by (simp add: str_nat.simps digit_char_def)

lemma str_nat_1: "str_nat (Suc 0) = ''1''"
  by (simp add: str_nat.simps digit_char_def)

lemma str_nat_numeral:
  "str_nat (numeral k) =
     (if numeral k < (10::nat) then [digit_char (numeral k)]
      else str_nat (numeral k div 10) @ [digit_char (numeral k mod 10)])"
  by (rule str_nat.simps)

lemmas str_nat_eval = str_nat_0 str_nat_1 str_nat_numeral digit_char_def

lemmas format_eval = format_fixed_def round_half_even_def Let_def zfill_def str_nat_eval

subsection \<open>Facts about dictionaries, alias resolution and the null mask\<close>

lemma dict_has_update:
  "dict_has (AList.update k v d) k' \<longleftrightarrow> k' = k \<or> dict_has d k'"
  by (simp add: dict_has_def update_conv')

lemma dict_has_fold_update:
  "dict_has (fold (\<lambda>c d. AList.update (f c) c d) cs d0) k \<longleftrightarrow>
     k \<in> f ` set cs \<or> dict_has d0 k"
  by (induction cs arbitrary: d0) (auto simp: dict_has_update)

lemma dict_has_available_curves:
  "dict_has (available_curves cs) k \<longleftrightarrow> k \<in> (\<lambda>c. upper (mnemonic c)) ` set cs"
  by (simp add: available_curves_def dict_has_fold_update) (simp add: dict_has_def)

lemma find_curve_alias_find:
  "find_curve_alias als d = map_option upper (find (\<lambda>a. dict_has d (upper a)) als)"
  by (induction als) auto

text \<open>Both loops are a fold of \<open>AList.update\<close> over the items of the configuration.\<close>

lemma validate_loop_fold:
  "validate_loop v las av cfg r =
     fold (\<lambda>(k, i). AList.update k (validate_entry v las av i)) cfg r"
  by (induction cfg arbitrary: r) auto

lemma detail_loop_fold:
  "detail_loop v las av cfg r =
     fold (\<lambda>(k, i). AList.update k (detail_entry v las av i)) cfg r"
  by (induction cfg arbitrary: r) auto


lemma fold_update_distinct:
  "distinct (map fst r) \<Longrightarrow> distinct (map fst (fold (\<lambda>(k, i). AList.update k (g i)) cfg r))"
  by (induction cfg arbitrary: r) (auto simp: distinct_update)

lemma fold_update_other:
  "key \<notin> fst ` set cfg \<Longrightarrow>
   map_of (fold (\<lambda>(k, i). AList.update k (g i)) cfg r) key = map_of r key"
  by (induction cfg arbitrary: r) (auto simp: update_conv')

lemma fold_update_lookup:
  "distinct (map fst cfg) \<Longrightarrow> (key, info) \<in> set cfg \<Longrightarrow>
   map_of (fold (\<lambda>(k, i). AList.update k (g i)) cfg r) key = Some (g info)"
proof (induction cfg arbitrary: r)
  case Nil
  then show ?case by simp
next
  case (Cons p cfg)
  obtain k i where p: "p = (k, i)" by (cases p)
  show ?case
  proof (cases "(key, info) = p")
    case True
    with Cons.prems p have "key \<notin> fst ` set cfg" by auto
    with True p show ?thesis by (simp add: fold_update_other update_conv')
  next
    case False
    with Cons show ?thesis by (auto simp: p)
  qed
qed

lemma fold_update_keys_list:
  "distinct (map fst cfg) \<Longrightarrow> fst ` set r \<inter> fst ` set cfg = {} \<Longrightarrow>
   map fst (fold (\<lambda>(k, i). AList.update k (g i)) cfg r) = map fst r @ map fst cfg"
proof (induction cfg arbitrary: r)
  case Nil
  then show ?case by simp
next
  case (Cons p cfg)
  obtain k i where p: "p = (k, i)" by (cases p)
  from Cons.prems p have k: "k \<notin> fst ` set r" by auto
  then have u: "AList.update k (g i) r = r @ [(k, g i)]"
    by (induction r) auto
  from Cons.prems p have "fst ` set (r @ [(k, g i)]) \<inter> fst ` set cfg = {}" by auto
  with Cons.IH[of "r @ [(k, g i)]"] Cons.prems p u show ?case by simp
qed



lemma length_filter_eq_iff: "length (filter P xs) = length xs \<longleftrightarrow> list_all P xs"
proof (induction xs)
  case Nil
  then show ?case by simp
next
  case (Cons x xs)
  have "length (filter P xs) \<le> length xs" by simp
  then have "length (filter P xs) \<noteq> Suc (length xs)" by linarith
  with Cons show ?case by simp
qed

lemma percent_filled_100_iff:
  assumes "data \<noteq> []"
  shows "percent_filled null data = 100 \<longleftrightarrow> list_all (\<lambda>x. np_ne x null) data"
proof -
  let ?v = "filter (\<lambda>x. np_ne x null) data"
  have eq: "length ?v = length data \<longleftrightarrow> list_all (\<lambda>x. np_ne x null) data"
    by (rule length_filter_eq_iff)
  from assms have pos: "0 < real (length data)" by simp
  have "real (length ?v) / real (length data) * 100 = 100 \<longleftrightarrow> length ?v = length data"
    using pos by (simp add: field_simps)
  with assms eq show ?thesis
    by (simp add: percent_filled_def Let_def valid_samples_def)
qed

lemma format_100: "format_fixed 2 100 = ''100.00''"
  by (simp add: format_eval)

lemma np_ne_sentinel: "np_ne x (Fin c) \<longleftrightarrow> x \<noteq> Fin c"
  by (cases x) (auto simp: np_ne_def)

lemma nanmin_all_nan: "list_all isnan xs \<Longrightarrow> nanmin xs = NaN"
  by (simp add: nanmin_def list_all_iff filter_empty_conv[THEN iffD2])

subsection \<open>Alias resolution is first-match\<close>

text \<open>
  Claim C5. Alias resolution walks the alias list in order and binds to the first alias
  whose uppercase form is among the uppercased mnemonics of the file: the result of
  \<open>_find_curve_alias\<close> on the dictionary built from the curves is the uppercase form of
  the first such alias (\<open>find\<close> returns the first element of a list that satisfies a
  test), and \<open>None\<close> when there is none. In particular, with the aliases \<open>["RD", "RT"]\<close>
  and a file that holds both mnemonics, the result is \<open>"RD"\<close>.
\<close>

theorem find_curve_alias_first_match:
  "find_curve_alias als (available_curves cs) =
     map_option upper (find (\<lambda>a. upper a \<in> (\<lambda>c. upper (mnemonic c)) ` set cs) als) \<and>
   (''RD'' \<in> (\<lambda>c. upper (mnemonic c)) ` set cs \<and> ''RT'' \<in> (\<lambda>c. upper (mnemonic c)) ` set cs
      \<longrightarrow> find_curve_alias [''RD'', ''RT''] (available_curves cs) = Some ''RD'')"
proof
  show first: "find_curve_alias als (available_curves cs) =
     map_option upper (find (\<lambda>a. upper a \<in> (\<lambda>c. upper (mnemonic c)) ` set cs) als)"
    by (simp add: find_curve_alias_find dict_has_available_curves)
  have u: "upper ''RD'' = ''RD''" by code_simp
  show "''RD'' \<in> (\<lambda>c. upper (mnemonic c)) ` set cs \<and> ''RT'' \<in> (\<lambda>c. upper (mnemonic c)) ` set cs
      \<longrightarrow> find_curve_alias [''RD'', ''RT''] (available_curves cs) = Some ''RD''"
    using u by (simp add: dict_has_available_curves)
qed

definition example_curves :: "las_curve list" where
  "example_curves =
     [\<lparr>mnemonic = ''DEPT'', unit = Some ''M''\<rparr>,
      \<lparr>mnemonic = ''rt'', unit = Some ''OHMM''\<rparr>,
      \<lparr>mnemonic = ''Gamma'', unit = None\<rparr>,
      \<lparr>mnemonic = ''RD'', unit = Some ''OHMM''\<rparr>]"

theorem find_curve_alias_first_match_witness:
  "''RD'' \<in> (\<lambda>c. upper (mnemonic c)) ` set example_curves \<and>
   ''RT'' \<in> (\<lambda>c. upper (mnemonic c)) ` set example_curves \<and>
   find_curve_alias [''RD'', ''RT''] (available_curves example_curves) = Some ''RD'' \<and>
   find_curve_alias [''GR'', ''gamma'', ''RT''] (available_curves example_curves) = Some ''GAMMA''"
proof -
  have rd: "''RD'' \<in> (\<lambda>c. upper (mnemonic c)) ` set example_curves"
    unfolding example_curves_def by code_simp
  have rt: "''RT'' \<in> (\<lambda>c. upper (mnemonic c)) ` set example_curves"
    unfolding example_curves_def by code_simp
  have f: "map_option upper
             (find (\<lambda>a. upper a \<in> (\<lambda>c. upper (mnemonic c)) ` set example_curves)
                [''GR'', ''gamma'', ''RT'']) = Some ''GAMMA''"
    unfolding example_curves_def by code_simp
  from find_curve_alias_first_match[of "[''GR'', ''gamma'', ''RT'']" example_curves]
    find_curve_alias_first_match[of "[]" example_curves] rd rt f
  show ?thesis by simp
qed

subsection \<open>What the two methods store for a configured key\<close>

lemma valid_samples_sentinel:
  "valid_samples (Fin c) data = filter (\<lambda>x. x \<noteq> Fin c) data"
  by (simp add: valid_samples_def np_ne_sentinel)

lemma validate_las_file_lookup:
  assumes "curves las = Inr cs" "distinct (map fst (curve_config v))"
    "(key, info) \<in> set (curve_config v)"
  shows "\<exists>res. validate_las_file v las = Inr res \<and>
           map_of res key = Some (validate_entry v las (available_curves cs) info)"
  using assms by (simp add: validate_las_file_def validate_loop_fold fold_update_lookup)

lemma get_detailed_curve_info_lookup:
  assumes "curves las = Inr cs" "distinct (map fst (curve_config v))"
    "(key, info) \<in> set (curve_config v)"
  shows "\<exists>det. get_detailed_curve_info v las = Inr det \<and>
           map_of det key = Some (detail_entry v las (available_curves cs) info)"
  using assms by (simp add: get_detailed_curve_info_def detail_loop_fold fold_update_lookup)

lemma validate_entry_found:
  assumes "find_curve_alias (aliases info) av = Some a" "a \<noteq> []"
    "las_getitem las a = Inr data"
  shows "validate_entry (new_curve_validator cfg) las av info =
     (if list_all (\<lambda>x. x = Fin default_null) data
      then \<lparr>status = ''N'', reason = ''No valid data''\<rparr>
      else \<lparr>status = ''Y'',
            reason = ''Valid ('' @
              format_float 2 (nanmin (filter (\<lambda>x. x \<noteq> Fin default_null) data)) @ ''-'' @
              format_float 2 (nanmax (filter (\<lambda>x. x \<noteq> Fin default_null) data)) @ '')''\<rparr>)"
proof -
  have e: "filter (\<lambda>x. x \<noteq> Fin default_null) data = [] \<longleftrightarrow>
           list_all (\<lambda>x. x = Fin default_null) data"
    by (simp add: filter_empty_conv list_all_iff)
  show ?thesis
    using assms e
    by (simp add: validate_entry_def validate_curve_data_def new_curve_validator_def
        valid_samples_sentinel Let_def)
qed

lemma detail_entry_found:
  assumes "find_curve_alias (aliases info) av = Some a" "a \<noteq> []"
    "las_getitem las a = Inr data" "curves_getitem las a = Inr c"
  shows "info_percent_filled (detail_entry v las av info) =
           format_fixed 2 (percent_filled (null_value v) data)"
  using assms by (simp add: detail_entry_def Let_def)

lemma nanmax_all_nan: "list_all isnan xs \<Longrightarrow> nanmax xs = NaN"
  by (simp add: nanmax_def list_all_iff filter_empty_conv[THEN iffD2])

lemma list_all_nan_not_sentinel:
  assumes "list_all isnan data"
  shows "filter (\<lambda>x. x \<noteq> Fin c) data = data"
proof -
  have "\<forall>x\<in>set data. x \<noteq> Fin c"
    using assms by (auto simp: list_all_iff)
  then show ?thesis by (simp add: filter_id_conv)
qed

subsection \<open>Curves of sentinels, curves of NaNs\<close>


text \<open>A configuration of two curves, and a file whose gamma-ray curve holds sentinels
  only and whose deep-resistivity curve holds two values and a sentinel.\<close>

definition example_config :: curve_config where
  "example_config =
     [(''GR'', \<lparr>aliases = [''GR'', ''GAMMA''], description = ''Gamma Ray''\<rparr>),
      (''RD'', \<lparr>aliases = [''RD'', ''RT''], description = ''Deep Resistivity''\<rparr>)]"


lemma example_las_aliases:
  "find_curve_alias [''GR'', ''GAMMA''] (available_curves example_curves) = Some ''GAMMA''"
  "find_curve_alias [''RD'', ''RT''] (available_curves example_curves) = Some ''RD''"
  unfolding example_curves_def by code_simp+



text \<open>
  Claim C10. The mask \<open>data != self.null_value\<close> removes only the samples equal to
  \<open>-999.25\<close>, so a NaN is valid data. For a resolved curve that has samples, all of them
  NaN, \<open>validate_las_file\<close> stores the status \<open>"Y"\<close> (the range prints as \<open>nan-nan\<close>), not
  \<open>"No valid data"\<close>, and \<open>get_detailed_curve_info\<close> stores \<open>"100.00"\<close> as
  \<open>percent_filled\<close>. A curve whose samples are all NaN has at least one sample; on an
  empty array both methods take their empty branch.
\<close>

theorem nan_samples_count_as_valid:
  assumes "curves las = Inr cs" "distinct (map fst cfg)" "(key, info) \<in> set cfg"
    and "find_curve_alias (aliases info) (available_curves cs) = Some a" "a \<noteq> []"
    and "las_getitem las a = Inr data" "curves_getitem las a = Inr c"
    and "data \<noteq> []" "list_all isnan data"
  shows "\<exists>res det d.
     validate_las_file (new_curve_validator cfg) las = Inr res \<and>
     map_of res key = Some \<lparr>status = ''Y'', reason = ''Valid (nan-nan)''\<rparr> \<and>
     get_detailed_curve_info (new_curve_validator cfg) las = Inr det \<and>
     map_of det key = Some d \<and> info_percent_filled d = ''100.00''"
proof -
  let ?v = "new_curve_validator cfg"
  let ?s = "Fin default_null"
  have cfg: "curve_config ?v = cfg" and nv: "null_value ?v = ?s"
    by (simp_all add: new_curve_validator_def)
  have keep: "filter (\<lambda>x. x \<noteq> ?s) data = data"
    using assms(9) by (rule list_all_nan_not_sentinel)
  have no_sentinel: "\<not> list_all (\<lambda>x. x = ?s) data"
  proof
    assume "list_all (\<lambda>x. x = ?s) data"
    then have "filter (\<lambda>x. x \<noteq> ?s) data = []"
      by (simp add: filter_empty_conv list_all_iff)
    with keep assms(8) show False by simp
  qed
  from validate_las_file_lookup[of las cs ?v key info] assms(1-3) cfg
  obtain res where r: "validate_las_file ?v las = Inr res"
    "map_of res key = Some (validate_entry ?v las (available_curves cs) info)"
    by auto
  have e: "validate_entry ?v las (available_curves cs) info =
             \<lparr>status = ''Y'', reason = ''Valid (nan-nan)''\<rparr>"
    using validate_entry_found[OF assms(4-6), of cfg] no_sentinel keep assms(9)
    by (simp add: nanmin_all_nan nanmax_all_nan)
  from get_detailed_curve_info_lookup[of las cs ?v key info] assms(1-3) cfg
  obtain det where d: "get_detailed_curve_info ?v las = Inr det"
    "map_of det key = Some (detail_entry ?v las (available_curves cs) info)"
    by auto
  have "list_all (\<lambda>x. np_ne x ?s) data"
    using keep by (simp add: np_ne_sentinel filter_id_conv list_all_iff)
  then have "percent_filled ?s data = 100"
    using assms(8) by (simp add: percent_filled_100_iff)
  then have p: "info_percent_filled (detail_entry ?v las (available_curves cs) info) = ''100.00''"
    using detail_entry_found[OF assms(4-7), of ?v] nv by (simp add: format_100)
  from r e d p show ?thesis by simp
qed

definition nan_las :: las_file where
  "nan_las =
     \<lparr>curves = Inr example_curves,
      las_getitem = (\<lambda>n. Inr [NaN, NaN, NaN]),
      curves_getitem = (\<lambda>n. Inr \<lparr>mnemonic = n, unit = None\<rparr>)\<rparr>"

theorem nan_samples_count_as_valid_witness:
  "\<exists>res det d.
     validate_las_file (new_curve_validator example_config) nan_las = Inr res \<and>
     map_of res ''RD'' = Some \<lparr>status = ''Y'', reason = ''Valid (nan-nan)''\<rparr> \<and>
     get_detailed_curve_info (new_curve_validator example_config) nan_las = Inr det \<and>
     map_of det ''RD'' = Some d \<and> info_percent_filled d = ''100.00''"
proof -
  have c: "curves nan_las = Inr example_curves"
    by (simp add: nan_las_def)
  have d: "distinct (map fst example_config)"
    by (simp add: example_config_def)
  have rd: "(''RD'', \<lparr>aliases = [''RD'', ''RT''], description = ''Deep Resistivity''\<rparr>)
              \<in> set example_config"
    by (simp add: example_config_def)
  have a: "find_curve_alias
             (aliases \<lparr>aliases = [''RD'', ''RT''], description = ''Deep Resistivity''\<rparr>)
             (available_curves example_curves) = Some ''RD''"
    by (simp add: example_las_aliases del: find_curve_alias.simps)
  have g: "las_getitem nan_las ''RD'' = Inr [NaN, NaN, NaN]"
    by (simp add: nan_las_def)
  have o: "curves_getitem nan_las ''RD'' = Inr \<lparr>mnemonic = ''RD'', unit = None\<rparr>"
    by (simp add: nan_las_def)
  show ?thesis
    by (rule nan_samples_count_as_valid[OF c d rd a _ g o]) simp_all
qed

subsection \<open>The reported fill percentage\<close>









section \<open>Seismic handles: what \<open>segyio\<close> exposes\<close>

text \<open>
  A SEG-Y handle is \<open>segyio\<close>'s file object, seen through the accesses the validators
  make; each of them reads the file and may raise. \<open>bin\<close> is the binary header,
  \<open>segy_format\<close> the attribute \<open>segy.format\<close>, \<open>trace i\<close> the samples of \<open>segy.trace[i]\<close>
  and \<open>header i\<close> the trace header \<open>segy.header[i]\<close>, whose fields are integers
  (\<open>h.get(field, 0)\<close> is the field's value). \<open>segy_filename\<close> is the attribute
  \<open>_filename\<close> when the object has one.
\<close>

datatype binfield = Format | SortingCode | Interval | MeasurementSystem | Samples

datatype tracefield = CDP_X | CDP_Y | SourceX | SourceY | GroupX | GroupY | CDP | FieldRecord

record segy_file =
  segy_filename :: "string option"
  tracecount :: "pyerr + int"
  samples_size :: "pyerr + int"
  segy_format :: "pyerr + int"
  bin :: "binfield \<Rightarrow> pyerr + int"
  trace :: "int \<Rightarrow> pyerr + npfloat list"
  header :: "int \<Rightarrow> pyerr + (tracefield \<Rightarrow> int)"

subsection \<open>Sampling\<close>

text \<open>\<open>int(x)\<close> of a float truncates toward zero.\<close>

definition py_int :: "real \<Rightarrow> int" where
  "py_int x = (if 0 \<le> x then \<lfloor>x\<rfloor> else \<lceil>x\<rceil>)"

text \<open>\<open>range(0, stop, step)\<close> for a positive step.\<close>

definition py_range :: "int \<Rightarrow> int \<Rightarrow> int list" where
  "py_range stop step = map (\<lambda>k. int k * step) [0..<nat ((stop + step - 1) div step)]"

text \<open>
  \<open>np.linspace(0, stop, num, dtype=int)\<close>: \<open>num\<close> evenly spaced values from \<open>0\<close> to
  \<open>stop\<close>, truncated to integers; a negative \<open>num\<close> raises, \<open>num = 1\<close> gives the start.
\<close>

definition np_linspace_int :: "int \<Rightarrow> int \<Rightarrow> pyerr + int list" where
  "np_linspace_int stop num =
     (if num < 0 then Inl (PyErr ''Number of samples must be non-negative.'')
      else if num = 1 then Inr [0]
      else Inr (map (\<lambda>i. py_int (real i * real_of_int stop / real_of_int (num - 1)))
                  [0..<nat num]))"

subsection \<open>Dead traces\<close>

text \<open>\<open>np.all(trace == 0)\<close> and \<open>np.all(np.isnan(trace))\<close>.\<close>

definition all_zero :: "npfloat list \<Rightarrow> bool" where
  "all_zero tr = list_all (\<lambda>x. np_eq x (Fin 0)) tr"

definition all_nan :: "npfloat list \<Rightarrow> bool" where
  "all_nan tr = list_all isnan tr"

text \<open>
  \<open>np.std(trace)\<close>, the square root of the mean squared deviation from the mean. It is
  NaN for an empty array and for an array that holds a NaN or an infinity.
\<close>

fun is_fin :: "npfloat \<Rightarrow> bool" where
  "is_fin (Fin x) = True"
| "is_fin _ = False"

fun fin_val :: "npfloat \<Rightarrow> real" where
  "fin_val (Fin x) = x"
| "fin_val _ = 0"

definition mean :: "real list \<Rightarrow> real" where
  "mean xs = sum_list xs / real (length xs)"

definition variance :: "real list \<Rightarrow> real" where
  "variance xs = mean (map (\<lambda>x. (x - mean xs)\<^sup>2) xs)"

definition np_std :: "npfloat list \<Rightarrow> npfloat" where
  "np_std tr =
     (if tr = [] \<or> \<not> list_all is_fin tr then NaN
      else Fin (sqrt (variance (map fin_val tr))))"

text \<open>The test of \<open>Seismic2DValidator._analyze_null_traces\<close>.\<close>

definition is_dead_2d :: "npfloat list \<Rightarrow> bool" where
  "is_dead_2d tr = (all_zero tr \<or> all_nan tr \<or> np_lt (np_std tr) (Fin (1 / 10 ^ 10)))"


subsection \<open>\<open>Seismic2DValidator._analyze_null_traces\<close>\<close>

record null_info =
  null_count :: int
  null_percent :: real

text \<open>The loop \<open>for idx in indices\<close> with its counter.\<close>

fun count_dead_2d :: "segy_file \<Rightarrow> int list \<Rightarrow> int \<Rightarrow> pyerr + int" where
  "count_dead_2d segy [] cnt = Inr cnt"
| "count_dead_2d segy (idx # rest) cnt =
     (case trace segy idx of
        Inl e \<Rightarrow> Inl e
      | Inr tr \<Rightarrow> count_dead_2d segy rest (if is_dead_2d tr then cnt + 1 else cnt))"

text \<open>The body of the \<open>try\<close>. The division \<open>null_count / trace_count\<close> is one of Python
  ints and raises for \<open>trace_count = 0\<close>.\<close>

definition analyze_null_traces_try :: "segy_file \<Rightarrow> int \<Rightarrow> pyerr + null_info" where
  "analyze_null_traces_try segy sample_size =
     (case tracecount segy of
        Inl e \<Rightarrow> Inl e
      | Inr n \<Rightarrow>
          (let trace_count = min sample_size n
           in case np_linspace_int (n - 1) trace_count of
                Inl e \<Rightarrow> Inl e
              | Inr indices \<Rightarrow>
                  (case count_dead_2d segy indices 0 of
                     Inl e \<Rightarrow> Inl e
                   | Inr cnt \<Rightarrow>
                       if trace_count = 0 then Inl (PyErr ''division by zero'')
                       else
                         (let estimated_null =
                                py_int (real_of_int cnt / real_of_int trace_count * real_of_int n);
                              percent = (if n > 0
                                         then real_of_int estimated_null / real_of_int n * 100
                                         else 0)
                          in Inr \<lparr>null_count = estimated_null, null_percent = percent\<rparr>))))"

text \<open>\<open>_analyze_null_traces(self, segy, sample_size=100)\<close>.\<close>

definition analyze_null_traces :: "segy_file \<Rightarrow> int \<Rightarrow> null_info" where
  "analyze_null_traces segy sample_size =
     (case analyze_null_traces_try segy sample_size of
        Inl e \<Rightarrow> \<lparr>null_count = 0, null_percent = 0\<rparr>
      | Inr r \<Rightarrow> r)"

subsection \<open>\<open>Seismic3DValidator._extract_trace_quality\<close>\<close>




subsection \<open>\<open>Seismic3DValidator._count_null_traces\<close>\<close>




section \<open>Binary header\<close>

text \<open>The tables \<open>_get_format_short\<close> and \<open>_get_sorting_description\<close>, the same in both
  validators.\<close>

definition get_format_short :: "int \<Rightarrow> string" where
  "get_format_short format_code =
     (if format_code = 1 then ''IBM Float''
      else if format_code = 2 then ''4-byte Int''
      else if format_code = 3 then ''2-byte Int''
      else if format_code = 5 then ''IEEE Float''
      else if format_code = 8 then ''1-byte Int''
      else ''Code '' @ str_int format_code)"

definition get_sorting_description :: "int \<Rightarrow> string" where
  "get_sorting_description sorting_code =
     (if sorting_code = - 1 then ''Other''
      else if sorting_code = 0 then ''Unknown''
      else if sorting_code = 1 then ''As recorded (no sorting)''
      else if sorting_code = 2 then ''CDP ensemble''
      else if sorting_code = 3 then ''Single fold continuous profile''
      else if sorting_code = 4 then ''Horizontally stacked''
      else if sorting_code = 5 then ''Common source point''
      else if sorting_code = 6 then ''Common receiver point''
      else if sorting_code = 7 then ''Common offset point''
      else if sorting_code = 8 then ''Common mid-point''
      else if sorting_code = 9 then ''Common conversion point''
      else ''Unknown ('' @ str_int sorting_code @ '')'')"

subsection \<open>\<open>Seismic2DValidator._get_binary_header_info\<close>\<close>

record binary_info =
  bi_binary :: string
  bi_format_code :: string
  bi_sorting :: string
  bi_endian :: string
  bi_measurement_system :: string

text \<open>The two inner \<open>try\<close> blocks.\<close>

definition detect_endian :: "segy_file \<Rightarrow> string" where
  "detect_endian segy =
     (case bin segy Interval of
        Inl e \<Rightarrow> ''Unknown''
      | Inr interval \<Rightarrow>
          if 100 \<le> interval \<and> interval \<le> 100000 then ''Little Endian''
          else ''Big Endian (possible)'')"

definition measurement_2d :: "segy_file \<Rightarrow> string" where
  "measurement_2d segy =
     (case bin segy MeasurementSystem of
        Inl e \<Rightarrow> ''Unknown''
      | Inr meas_system \<Rightarrow>
          if meas_system = 1 then ''Meters''
          else if meas_system = 2 then ''Feet''
          else ''Unknown ('' @ str_int meas_system @ '')'')"

definition get_binary_header_info :: "segy_file \<Rightarrow> binary_info" where
  "get_binary_header_info segy =
     (case bin segy Format of
        Inl e \<Rightarrow> \<lparr>bi_binary = ''Error'', bi_format_code = ''Error'', bi_sorting = ''Error'',
                  bi_endian = ''Error'', bi_measurement_system = ''Error''\<rparr>
      | Inr format_code \<Rightarrow>
          (case bin segy SortingCode of
             Inl e \<Rightarrow> \<lparr>bi_binary = ''Error'', bi_format_code = ''Error'', bi_sorting = ''Error'',
                       bi_endian = ''Error'', bi_measurement_system = ''Error''\<rparr>
           | Inr sorting_code \<Rightarrow>
               \<lparr>bi_binary = ''SEG-Y Rev 1'',
                bi_format_code = str_int format_code @ '' ('' @ get_format_short format_code @ '')'',
                bi_sorting = get_sorting_description sorting_code,
                bi_endian = detect_endian segy,
                bi_measurement_system = measurement_2d segy\<rparr>))"

subsection \<open>\<open>Seismic3DValidator._extract_binary_header\<close>\<close>

definition trace_sorting_3d :: "segy_file \<Rightarrow> string" where
  "trace_sorting_3d segy =
     (case bin segy SortingCode of
        Inl e \<Rightarrow> ''Not available''
      | Inr sorting_code \<Rightarrow> get_sorting_description sorting_code)"

definition measurement_3d :: "segy_file \<Rightarrow> string" where
  "measurement_3d segy =
     (case bin segy MeasurementSystem of
        Inl e \<Rightarrow> ''Not available''
      | Inr meas_system \<Rightarrow>
          if meas_system = 1 then ''Meters''
          else if meas_system = 2 then ''Feet''
          else ''Unknown ('' @ str_int meas_system @ '')'')"

text \<open>Only the read of \<open>segy.format\<close> is outside the inner \<open>try\<close> blocks; when it raises,
  \<open>info\<close> is still empty.\<close>

definition extract_binary_header :: "segy_file \<Rightarrow> (string, string) dict" where
  "extract_binary_header segy =
     (case segy_format segy of
        Inl e \<Rightarrow> [(''Binary Header Error'', err_str e)]
      | Inr format_code \<Rightarrow>
          AList.update ''Measurement System'' (measurement_3d segy)
            (AList.update ''Endian Type'' ''Big Endian (SEG-Y standard)''
               (AList.update ''Trace Sorting'' (trace_sorting_3d segy)
                  (AList.update ''Binary Format Code'' (str_int format_code) []))))"

subsection \<open>Endianness\<close>

text \<open>A handle with \<open>n\<close> traces \<open>tr 0, ..., tr (n - 1)\<close>, IEEE floats, stacked, a sample
  interval of \<open>dt\<close> microseconds, metres.\<close>

definition example_segy :: "int \<Rightarrow> (int \<Rightarrow> npfloat list) \<Rightarrow> int \<Rightarrow> segy_file" where
  "example_segy n tr dt =
     \<lparr>segy_filename = Some ''line.sgy'',
      tracecount = Inr n,
      samples_size = Inr 2,
      segy_format = Inr 5,
      bin = (\<lambda>f. Inr (case f of Format \<Rightarrow> 5 | SortingCode \<Rightarrow> 4 | Interval \<Rightarrow> dt
                           | MeasurementSystem \<Rightarrow> 1 | Samples \<Rightarrow> 2)),
      trace = (\<lambda>i. if 0 \<le> i \<and> i < n then Inr (tr i) else Inl (PyErr ''index out of range'')),
      header = (\<lambda>i. if 0 \<le> i \<and> i < n then Inr (\<lambda>f. 0)
                     else Inl (PyErr ''index out of range''))\<rparr>"

text \<open>
  Claim C9. When the binary header can be read, the 2D validator reports \<open>"Little
  Endian"\<close> if the raw sample-interval field lies in \<open>[100, 100000]\<close> and \<open>"Big Endian
  (possible)"\<close> otherwise; the 3D validator reports \<open>"Big Endian (SEG-Y standard)"\<close>
  whatever the header holds.
\<close>

theorem endian_2d_heuristic_3d_fixed:
  assumes "bin segy2 Format = Inr fc" "bin segy2 SortingCode = Inr sc"
    and "bin segy2 Interval = Inr interval"
    and "segy_format segy3 = Inr fc3"
  shows "bi_endian (get_binary_header_info segy2) =
           (if 100 \<le> interval \<and> interval \<le> 100000 then ''Little Endian''
            else ''Big Endian (possible)'') \<and>
         map_of (extract_binary_header segy3) ''Endian Type'' =
           Some ''Big Endian (SEG-Y standard)''"
  using assms
  by (simp add: get_binary_header_info_def detect_endian_def extract_binary_header_def
      update_conv')

theorem endian_2d_heuristic_3d_fixed_witness:
  "bi_endian (get_binary_header_info (example_segy 3 (\<lambda>i. [Fin 1, Fin 2]) 4000)) =
     ''Little Endian'' \<and>
   bi_endian (get_binary_header_info (example_segy 3 (\<lambda>i. [Fin 1, Fin 2]) 50)) =
     ''Big Endian (possible)'' \<and>
   map_of (extract_binary_header (example_segy 3 (\<lambda>i. [Fin 1, Fin 2]) 50)) ''Endian Type'' =
     Some ''Big Endian (SEG-Y standard)''"
proof -
  let ?a = "example_segy 3 (\<lambda>i. [Fin 1, Fin 2]) 4000"
  let ?b = "example_segy 3 (\<lambda>i. [Fin 1, Fin 2]) 50"
  have a: "bin ?a Format = Inr 5" "bin ?a SortingCode = Inr 4" "bin ?a Interval = Inr 4000"
    by (simp_all add: example_segy_def)
  have b: "bin ?b Format = Inr 5" "bin ?b SortingCode = Inr 4" "bin ?b Interval = Inr 50"
    "segy_format ?b = Inr 5"
    by (simp_all add: example_segy_def)
  from endian_2d_heuristic_3d_fixed[OF a b(4)] endian_2d_heuristic_3d_fixed[OF b]
  show ?thesis by simp
qed

subsection \<open>The sampled indices lie in the file\<close>



subsection \<open>The loops over readable traces\<close>




section \<open>Null-trace extrapolation\<close>











subsection \<open>The detectors on a file whose traces can be read\<close>






subsection \<open>Counting in a sample\<close>





subsection \<open>Evaluating the dead-trace tests\<close>















subsection \<open>The estimate truncates\<close>






subsection \<open>Which traces count as dead\<close>















section \<open>Line geometry: \<open>Seismic2DValidator._calculate_line_geometry\<close>\<close>

text \<open>
  Trace-header coordinates are integers. Distances are real numbers: the square roots
  and the quotient are exact here, where the program rounds each to a double.
\<close>

record line_geometry =
  lg_straight_distance :: string
  lg_total_length :: string
  lg_sinuosity :: string
  lg_shape :: string
  lg_order :: string

text \<open>The loops that read a coordinate pair from the headers of the traces \<open>idxs\<close> and
  keep the pairs that are not \<open>(0, 0)\<close> (\<open>np.isnan\<close> of an integer is false).\<close>

fun collect_coords ::
  "segy_file \<Rightarrow> tracefield \<Rightarrow> tracefield \<Rightarrow> int list \<Rightarrow> (int \<times> int) list
     \<Rightarrow> pyerr + (int \<times> int) list" where
  "collect_coords segy x_field y_field [] coords = Inr coords"
| "collect_coords segy x_field y_field (idx # rest) coords =
     (case header segy idx of
        Inl e \<Rightarrow> Inl e
      | Inr h \<Rightarrow>
          (let x = h x_field; y = h y_field
           in if x \<noteq> 0 \<or> y \<noteq> 0
              then collect_coords segy x_field y_field rest (coords @ [(x, y)])
              else collect_coords segy x_field y_field rest coords))"

definition coord_candidates :: "(tracefield \<times> tracefield) list" where
  "coord_candidates = [(CDP_X, CDP_Y), (SourceX, SourceY), (GroupX, GroupY)]"

text \<open>The detection loop: the first pair of fields with more than five valid
  coordinates among the first 50 traces.\<close>

fun choose_fields ::
  "segy_file \<Rightarrow> int \<Rightarrow> (tracefield \<times> tracefield) list
     \<Rightarrow> pyerr + (tracefield \<times> tracefield) option" where
  "choose_fields segy n [] = Inr None"
| "choose_fields segy n ((x_field, y_field) # rest) =
     (case collect_coords segy x_field y_field (py_range (min 50 n) 1) [] of
        Inl e \<Rightarrow> Inl e
      | Inr sample_check \<Rightarrow>
          if length sample_check > 5 then Inr (Some (x_field, y_field))
          else choose_fields segy n rest)"

text \<open>The distance between two points, the lengths of the segments of a path
  (\<open>np.sqrt(np.sum(np.diff(coords, axis=0) ** 2, axis=1))\<close>) and their sum.\<close>

fun point_dist :: "int \<times> int \<Rightarrow> int \<times> int \<Rightarrow> real" where
  "point_dist (x1, y1) (x2, y2) = sqrt (real_of_int ((x2 - x1)\<^sup>2 + (y2 - y1)\<^sup>2))"

fun segment_lengths :: "(int \<times> int) list \<Rightarrow> real list" where
  "segment_lengths (p # q # rest) = point_dist p q # segment_lengths (q # rest)"
| "segment_lengths _ = []"

definition straight_dist :: "(int \<times> int) list \<Rightarrow> real" where
  "straight_dist coords = point_dist (hd coords) (last coords)"

definition total_length :: "(int \<times> int) list \<Rightarrow> real" where
  "total_length coords = sum_list (segment_lengths coords)"

text \<open>\<open>total_length / straight_dist if straight_dist > 0 else 1.0\<close>.\<close>

definition sinuosity :: "(int \<times> int) list \<Rightarrow> real" where
  "sinuosity coords =
     (if straight_dist coords > 0 then total_length coords / straight_dist coords else 1)"

definition classify_shape :: "real \<Rightarrow> string" where
  "classify_shape s =
     (if s < 1.05 then ''Straight''
      else if s < 1.2 then ''Nearly Straight''
      else if s < 1.5 then ''Curved''
      else ''Highly Curved'')"

text \<open>\<open>all(xs[i] <= xs[i + 1] for i in range(len(xs) - 1))\<close>, for a comparison
  \<open>cmp\<close>.\<close>

fun all_consecutive :: "(int \<Rightarrow> int \<Rightarrow> bool) \<Rightarrow> int list \<Rightarrow> bool" where
  "all_consecutive cmp (a # b # rest) = (cmp a b \<and> all_consecutive cmp (b # rest))"
| "all_consecutive cmp _ = True"

definition coordinate_order :: "(int \<times> int) list \<Rightarrow> string" where
  "coordinate_order coords =
     (let x_coords = map fst coords; y_coords = map snd coords;
          x_increasing = all_consecutive (\<lambda>a b. a \<le> b) x_coords;
          x_decreasing = all_consecutive (\<lambda>a b. a \<ge> b) x_coords;
          y_increasing = all_consecutive (\<lambda>a b. a \<le> b) y_coords;
          y_decreasing = all_consecutive (\<lambda>a b. a \<ge> b) y_coords
      in if x_increasing \<or> x_decreasing \<or> y_increasing \<or> y_decreasing
         then ''Sequential'' else ''Irregular'')"

text \<open>The part of the method that follows the collection of \<open>coords\<close>.\<close>

definition geometry_of_coords :: "(int \<times> int) list \<Rightarrow> line_geometry" where
  "geometry_of_coords coords =
     (if length coords < 2 then
        \<lparr>lg_straight_distance = ''Insufficient coordinates'',
         lg_total_length = ''Insufficient coordinates'',
         lg_sinuosity = ''N/A'', lg_shape = ''Unknown'', lg_order = ''Unknown''\<rparr>
      else
        \<lparr>lg_straight_distance = format_fixed 2 (straight_dist coords),
         lg_total_length = format_fixed 3 (total_length coords / 1000),
         lg_sinuosity = format_fixed 3 (sinuosity coords),
         lg_shape = classify_shape (sinuosity coords),
         lg_order = coordinate_order coords\<rparr>)"

definition calculate_line_geometry_try :: "segy_file \<Rightarrow> pyerr + line_geometry" where
  "calculate_line_geometry_try segy =
     (case tracecount segy of
        Inl e \<Rightarrow> Inl e
      | Inr n \<Rightarrow>
          (case choose_fields segy n coord_candidates of
             Inl e \<Rightarrow> Inl e
           | Inr None \<Rightarrow>
               Inr \<lparr>lg_straight_distance = ''No coordinates found'',
                    lg_total_length = ''No coordinates found'',
                    lg_sinuosity = ''N/A'', lg_shape = ''Unknown'', lg_order = ''Unknown''\<rparr>
           | Inr (Some (x_field, y_field)) \<Rightarrow>
               (case np_linspace_int (n - 1) (min 200 n) of
                  Inl e \<Rightarrow> Inl e
                | Inr indices \<Rightarrow>
                    (case collect_coords segy x_field y_field indices [] of
                       Inl e \<Rightarrow> Inl e
                     | Inr coords \<Rightarrow> Inr (geometry_of_coords coords)))))"

definition calculate_line_geometry :: "segy_file \<Rightarrow> line_geometry" where
  "calculate_line_geometry segy =
     (case calculate_line_geometry_try segy of
        Inl e \<Rightarrow> \<lparr>lg_straight_distance = ''Error'', lg_total_length = ''Error'',
                  lg_sinuosity = ''Error'', lg_shape = ''Error'', lg_order = ''Error''\<rparr>
      | Inr g \<Rightarrow> g)"

section \<open>\<open>Seismic2DValidator.get_comprehensive_info\<close>\<close>

text \<open>
  The helper methods that are not translated here (\<open>_extract_line_name\<close>,
  \<open>_get_cdp_range\<close>, \<open>_get_coordinate_range\<close>, \<open>_calculate_amplitude_stats\<close>,
  \<open>_calculate_frequency_metrics\<close>, \<open>_check_trace_length_uniformity\<close>, \<open>_detect_clipping\<close>,
  \<open>_calculate_trace_spacing\<close>, \<open>_calculate_signal_statistics\<close>) have one shape: the whole
  body is a \<open>try\<close> whose catch-all \<open>except\<close> returns default values. A call of one of
  them returns a value and never raises; the record below holds the values they return
  on the handle at hand.
\<close>

record qc_helpers =
  h_line_name :: string
  h_cdp_range :: string
  h_x_range :: string
  h_y_range :: string
  h_amp_min :: npfloat
  h_amp_max :: npfloat
  h_amp_rms :: npfloat
  h_nyquist :: npfloat
  h_dominant :: npfloat
  h_uniformity :: string
  h_clipping :: string
  h_spacing_average :: string
  h_spacing_min :: string
  h_spacing_max :: string
  h_std_dev :: npfloat
  h_mean :: npfloat
  h_skewness :: npfloat
  h_kurtosis :: npfloat
  h_snr :: npfloat

text \<open>\<open>os.path.basename\<close> (POSIX) and the table \<open>_get_format_description\<close> of the 2D
  validator.\<close>

definition basename :: "string \<Rightarrow> string" where
  "basename p = rev (takeWhile (\<lambda>c. c \<noteq> CHR ''/'') (rev p))"

definition get_format_description :: "int \<Rightarrow> string" where
  "get_format_description format_code =
     (if format_code = 1 then ''4-byte IBM floating-point''
      else if format_code = 2 then ''4-byte signed integer''
      else if format_code = 3 then ''2-byte signed integer''
      else if format_code = 5 then ''4-byte IEEE floating-point''
      else if format_code = 8 then ''1-byte signed integer''
      else ''Unknown ('' @ str_int format_code @ '')'')"

text \<open>
  The statements of the \<open>try\<close> block, in order. Each takes the dictionary \<open>info\<close> built
  so far and returns it extended, or raises and leaves it as it was. Only the four reads
  of the handle at the top can raise.
\<close>

type_synonym info_step = "(string, string) dict \<Rightarrow> pyerr + (string, string) dict"

definition set_key :: "string \<Rightarrow> string \<Rightarrow> info_step" where
  "set_key k v info = Inr (AList.update k v info)"

definition read_key :: "pyerr + int \<Rightarrow> string \<Rightarrow> (int \<Rightarrow> string) \<Rightarrow> info_step" where
  "read_key access k fmt info =
     (case access of Inl e \<Rightarrow> Inl e | Inr x \<Rightarrow> Inr (AList.update k (fmt x) info))"

definition comprehensive_steps :: "qc_helpers \<Rightarrow> segy_file \<Rightarrow> info_step list" where
  "comprehensive_steps hp segy =
     (let null_info = analyze_null_traces segy 100;
          geometry_info = calculate_line_geometry segy;
          binary = get_binary_header_info segy
      in [set_key ''Filename''
            (case segy_filename segy of None \<Rightarrow> ''N/A'' | Some f \<Rightarrow> basename f),
          set_key ''Line Name'' (h_line_name hp),
          read_key (bin segy Format) ''Format'' get_format_description,
          read_key (tracecount segy) ''Trace Count'' str_int,
          read_key (samples_size segy) ''Samples per Trace'' str_int,
          read_key (bin segy Interval) ''Sample Interval (ms)''
            (\<lambda>i. format_fixed 3 (real_of_int i / 1000)),
          set_key ''CDP Range'' (h_cdp_range hp),
          set_key ''Coordinate Range X'' (h_x_range hp),
          set_key ''Coordinate Range Y'' (h_y_range hp),
          set_key ''Amplitude Range''
            (format_float 4 (h_amp_min hp) @ '' to '' @ format_float 4 (h_amp_max hp)),
          set_key ''RMS Amplitude'' (format_float 4 (h_amp_rms hp)),
          set_key ''Nyquist Frequency'' (format_float 2 (h_nyquist hp) @ '' Hz''),
          set_key ''Dominant Frequency'' (format_float 2 (h_dominant hp) @ '' Hz''),
          set_key ''Null/Dead Traces''
            (str_int (null_count null_info) @ '' ('' @
             format_fixed 2 (null_percent null_info) @ ''%)''),
          set_key ''Trace Length Uniformity'' (h_uniformity hp),
          set_key ''Clipping Detected'' (h_clipping hp),
          set_key ''Average Trace Spacing (m)'' (h_spacing_average hp),
          set_key ''Min Trace Spacing (m)'' (h_spacing_min hp),
          set_key ''Max Trace Spacing (m)'' (h_spacing_max hp),
          set_key ''Straight Line Distance (m)'' (lg_straight_distance geometry_info),
          set_key ''Est. Total Line Length (km)'' (lg_total_length geometry_info),
          set_key ''Line Sinuosity'' (lg_sinuosity geometry_info),
          set_key ''Line Shape'' (lg_shape geometry_info),
          set_key ''Coordinate Order'' (lg_order geometry_info),
          set_key ''Binary'' (bi_binary binary),
          set_key ''Format Code'' (bi_format_code binary),
          set_key ''Trace Sorting'' (bi_sorting binary),
          set_key ''Endian Type'' (bi_endian binary),
          set_key ''Measurement System'' (bi_measurement_system binary),
          set_key ''Signal Std Dev'' (format_float 4 (h_std_dev hp)),
          set_key ''Signal Mean'' (format_float 4 (h_mean hp)),
          set_key ''Skewness'' (format_float 4 (h_skewness hp)),
          set_key ''Kurtosis'' (format_float 4 (h_kurtosis hp)),
          set_key ''Est. SNR (dB)'' (format_float 2 (h_snr hp))])"

text \<open>Running the statements: the first that raises ends the block, with the dictionary
  as it then is.\<close>

fun run_steps :: "info_step list \<Rightarrow> (string, string) dict \<Rightarrow> (string, string) dict \<times> pyerr option" where
  "run_steps [] info = (info, None)"
| "run_steps (s # rest) info =
     (case s info of Inl e \<Rightarrow> (info, Some e) | Inr info' \<Rightarrow> run_steps rest info')"

text \<open>A \<open>try\<close> around a block that mutates \<open>info\<close>, with the handler
  \<open>except Exception as e\<close>; what the handler raises would leave the method.\<close>

definition try_except ::
  "(string, string) dict \<times> pyerr option
     \<Rightarrow> ((string, string) dict \<Rightarrow> pyerr \<Rightarrow> pyerr + (string, string) dict)
     \<Rightarrow> pyerr + (string, string) dict" where
  "try_except outcome handler =
     (case outcome of (info, None) \<Rightarrow> Inr info | (info, Some e) \<Rightarrow> handler info e)"

definition get_comprehensive_info :: "qc_helpers \<Rightarrow> segy_file \<Rightarrow> pyerr + (string, string) dict" where
  "get_comprehensive_info hp segy =
     try_except (run_steps (comprehensive_steps hp segy) [])
       (\<lambda>info e. set_key ''Error'' (''Error extracting comprehensive info: '' @ err_str e) info)"

subsection \<open>A path is no shorter than the straight line\<close>



lemma point_dist_nonneg: "0 \<le> point_dist p q"
  by (cases p, cases q) simp










section \<open>Exceptions at the public entry points\<close>

subsection \<open>The outer guard of the 2D validator\<close>


lemma run_steps_read_key:
  "run_steps (read_key access k fmt # rest) info =
     (case access of
        Inl e \<Rightarrow> (info, Some e)
      | Inr x \<Rightarrow> run_steps rest (AList.update k (fmt x) info))"
  by (simp add: read_key_def split: sum.splits)

text \<open>A step keeps the keys of the dictionary it extends.\<close>

definition keeps_keys :: "info_step \<Rightarrow> bool" where
  "keeps_keys s = (\<forall>info info' k. s info = Inr info' \<longrightarrow> dict_has info k \<longrightarrow> dict_has info' k)"

lemma keeps_keys_set_key: "keeps_keys (set_key k v)"
  by (auto simp: keeps_keys_def set_key_def dict_has_update)

lemma keeps_keys_read_key: "keeps_keys (read_key access k fmt)"
  by (auto simp: keeps_keys_def read_key_def dict_has_update split: sum.splits)


lemma comprehensive_steps_keep_keys: "list_all keeps_keys (comprehensive_steps hp segy)"
  by (simp add: comprehensive_steps_def Let_def keeps_keys_set_key keeps_keys_read_key)




subsection \<open>The log validator reads the curve list outside its guards\<close>




definition raising_las :: las_file where
  "raising_las =
     \<lparr>curves = Inr example_curves,
      las_getitem = (\<lambda>n. Inl (PyErr n)),
      curves_getitem = (\<lambda>n. Inl (PyErr n))\<rparr>"

definition closed_segy :: segy_file where
  "closed_segy =
     \<lparr>segy_filename = None,
      tracecount = Inl (PyErr ''closed''),
      samples_size = Inl (PyErr ''closed''),
      segy_format = Inl (PyErr ''closed''),
      bin = (\<lambda>f. Inl (PyErr ''closed'')),
      trace = (\<lambda>i. Inl (PyErr ''closed'')),
      header = (\<lambda>i. Inl (PyErr ''closed''))\<rparr>"

definition default_helpers :: qc_helpers where
  "default_helpers =
     \<lparr>h_line_name = ''N/A'', h_cdp_range = ''N/A'', h_x_range = ''Error'',
      h_y_range = ''Error'', h_amp_min = Fin 0, h_amp_max = Fin 0, h_amp_rms = Fin 0,
      h_nyquist = Fin 0, h_dominant = Fin 0, h_uniformity = ''Error checking uniformity'',
      h_clipping = ''Error'', h_spacing_average = ''Error'', h_spacing_min = ''Error'',
      h_spacing_max = ''Error'', h_std_dev = Fin 0, h_mean = Fin 0, h_skewness = Fin 0,
      h_kurtosis = Fin 0, h_snr = Fin 0\<rparr>"



lemma closed_segy_info:
  "get_comprehensive_info default_helpers closed_segy =
     Inr [(''Filename'', ''N/A''), (''Line Name'', ''N/A''),
          (''Error'', ''Error extracting comprehensive info: closed'')]"
  by (simp add: get_comprehensive_info_def comprehensive_steps_def Let_def
      try_except_def set_key_def read_key_def closed_segy_def default_helpers_def)

lemma raising_las_results:
  "validate_las_file (new_curve_validator example_config) raising_las =
     Inr [(''GR'', \<lparr>status = ''N'', reason = ''Error: GAMMA''\<rparr>),
          (''RD'', \<lparr>status = ''N'', reason = ''Error: RD''\<rparr>)]"
proof -
  have e: "validate_entry (new_curve_validator example_config) raising_las
             (available_curves example_curves)
             \<lparr>aliases = [''GR'', ''GAMMA''], description = ''Gamma Ray''\<rparr> =
           \<lparr>status = ''N'', reason = ''Error: GAMMA''\<rparr>"
    "validate_entry (new_curve_validator example_config) raising_las
             (available_curves example_curves)
             \<lparr>aliases = [''RD'', ''RT''], description = ''Deep Resistivity''\<rparr> =
           \<lparr>status = ''N'', reason = ''Error: RD''\<rparr>"
    by (simp_all add: validate_entry_def validate_curve_data_def example_las_aliases
        raising_las_def Let_def del: find_curve_alias.simps)
  show ?thesis
    by (simp add: validate_las_file_def raising_las_def)
       (simp add: new_curve_validator_def example_config_def e[unfolded raising_las_def new_curve_validator_def example_config_def])
qed


end
